theory Spec2Isabelle
  imports Main
begin

section \<open>Go values used by cmd/main.go\<close>

text \<open>
  A Go \<open>error\<close> value. \<open>ErrServerClosed\<close> is the sentinel \<open>http.ErrServerClosed\<close>;
  \<open>Wrapped\<close> is an error with an \<open>Unwrap\<close> method (as \<open>fmt.Errorf("...%w", e)\<close> builds).
  A nil error is \<open>None\<close> of \<open>error option\<close>.
\<close>

datatype error = ErrServerClosed | ErrOther string | Wrapped string error

text \<open>\<open>errors.Is(err, target)\<close>: walks the chain of wrapped errors; false on nil.\<close>

primrec chain_has :: "error \<Rightarrow> error \<Rightarrow> bool" where
  "chain_has ErrServerClosed t = (t = ErrServerClosed)"
| "chain_has (ErrOther m) t = (t = ErrOther m)"
| "chain_has (Wrapped m e) t = (t = Wrapped m e \<or> chain_has e t)"

definition errors_Is :: "error option \<Rightarrow> error \<Rightarrow> bool" where
  "errors_Is err t = (case err of None \<Rightarrow> False | Some e \<Rightarrow> chain_has e t)"

text \<open>The struct \<open>Config\<close> of main.go, lines 33 to 37.\<close>

record Config =
  AppName :: string
  Port :: int
  Debug :: bool

section \<open>viper: the global configuration store\<close>

text \<open>
  The values the program stores are a string, an int and a bool. The store keeps the
  explicitly set values (which win) and the defaults. The typed getters return the
  stored value when it has the type asked for and Go's zero value when the key is
  missing; main.go reads every key at the type it stored, so conversions between
  types are never exercised (the getters give the zero value there).
\<close>

datatype vval = VString string | VInt int | VBool bool

record viper =
  overrides :: "string \<rightharpoonup> vval"
  defaults :: "string \<rightharpoonup> vval"

definition viper_New :: viper where
  "viper_New = \<lparr>overrides = Map.empty, defaults = Map.empty\<rparr>"

definition SetDefault :: "string \<Rightarrow> vval \<Rightarrow> viper \<Rightarrow> viper" where
  "SetDefault k x v = v\<lparr>defaults := (defaults v)(k \<mapsto> x)\<rparr>"

definition viper_find :: "viper \<Rightarrow> string \<Rightarrow> vval option" where
  "viper_find v k =
     (case overrides v k of Some x \<Rightarrow> Some x | None \<Rightarrow> defaults v k)"

definition GetString :: "viper \<Rightarrow> string \<Rightarrow> string" where
  "GetString v k = (case viper_find v k of Some (VString s) \<Rightarrow> s | _ \<Rightarrow> [])"

definition GetInt :: "viper \<Rightarrow> string \<Rightarrow> int" where
  "GetInt v k = (case viper_find v k of Some (VInt i) \<Rightarrow> i | _ \<Rightarrow> 0)"

definition GetBool :: "viper \<Rightarrow> string \<Rightarrow> bool" where
  "GetBool v k = (case viper_find v k of Some (VBool b) \<Rightarrow> b | _ \<Rightarrow> False)"

text \<open>main.go, lines 56 to 58: the three defaults, set on the global store.\<close>

definition set_defaults :: "viper \<Rightarrow> viper" where
  "set_defaults v =
     SetDefault ''debug'' (VBool True)
       (SetDefault ''port'' (VInt 5000)
         (SetDefault ''app_name'' (VString ''bazel-demo-app'') v))"

text \<open>main.go, lines 62 to 66: the \<open>Config\<close> literal read back from the store.\<close>

definition read_config :: "viper \<Rightarrow> Config" where
  "read_config v =
     \<lparr>AppName = GetString v ''app_name'', Port = GetInt v ''port'', Debug = GetBool v ''debug''\<rparr>"

definition startup_config :: Config where
  "startup_config = read_config (set_defaults viper_New)"

section \<open>validator: the struct tags of Config\<close>

text \<open>
  \<open>AppName\<close> carries \<open>validate:"required"\<close>, \<open>Port\<close> carries
  \<open>validate:"required,min=1000,max=65535"\<close>, \<open>Debug\<close> carries none. The tags of a field
  are tried in order and the first that fails is reported; \<open>required\<close> fails on the
  zero value. The result is the list of (field, tag) failures; \<open>err == nil\<close> is the
  empty list.
\<close>

definition validate_Struct :: "Config \<Rightarrow> (string \<times> string) list" where
  "validate_Struct c =
     (if AppName c = [] then [(''AppName'', ''required'')] else []) @
     (if Port c = 0 then [(''Port'', ''required'')]
      else if Port c < 1000 then [(''Port'', ''min'')]
      else if Port c > 65535 then [(''Port'', ''max'')]
      else [])"

section \<open>go-cache: the expiring in-memory cache\<close>

text \<open>
  A \<open>time.Duration\<close> and a Unix time in nanoseconds are integers. An item keeps its
  value and the instant it expires (0: never). \<open>Set\<close> with \<open>DefaultExpiration\<close> takes
  the cache's default; \<open>Get\<close> misses when the key is absent or the item has expired
  at the instant of the read. The clock is passed in: it is read inside the library.
\<close>

definition Second :: int where "Second = 1000000000"
definition Minute :: int where "Minute = 60 * Second"
definition Hour :: int where "Hour = 60 * Minute"

definition DefaultExpiration :: int where "DefaultExpiration = 0"

record Item =
  Object :: string
  Expiration :: int

record cache =
  defaultExpiration :: int
  items :: "string \<rightharpoonup> Item"

definition cache_New :: "int \<Rightarrow> int \<Rightarrow> cache" where
  "cache_New de cleanupInterval =
     \<lparr>defaultExpiration = (if de = 0 then - 1 else de), items = Map.empty\<rparr>"

definition cache_Set :: "cache \<Rightarrow> string \<Rightarrow> string \<Rightarrow> int \<Rightarrow> int \<Rightarrow> cache" where
  "cache_Set c k x d now =
     (let d' = (if d = DefaultExpiration then defaultExpiration c else d);
          e = (if d' > 0 then now + d' else 0)
      in c\<lparr>items := (items c)(k \<mapsto> \<lparr>Object = x, Expiration = e\<rparr>)\<rparr>)"

definition cache_Get :: "cache \<Rightarrow> string \<Rightarrow> int \<Rightarrow> string option" where
  "cache_Get c k now =
     (case items c k of
        None \<Rightarrow> None
      | Some it \<Rightarrow> if Expiration it > 0 \<and> now > Expiration it then None else Some (Object it))"

section \<open>jwt-go: tokens\<close>

datatype claim = CString string | CInt int

record Token =
  Method :: string
  Claims :: "(string \<times> claim) list"

definition NewWithClaims :: "string \<Rightarrow> (string \<times> claim) list \<Rightarrow> Token" where
  "NewWithClaims m cs = \<lparr>Method = m, Claims = cs\<rparr>"

text \<open>\<open>Time.Unix()\<close>: whole seconds since the epoch of an instant given in nanoseconds.\<close>

definition Unix :: "int \<Rightarrow> int" where
  "Unix t = t div Second"

section \<open>xmlquery: documents\<close>

datatype xnode =
    Element string "(string \<times> string) list" "xnode list"
  | Text string
  | Attribute string string

fun InnerText :: "xnode \<Rightarrow> string" where
  "InnerText (Text s) = s"
| "InnerText (Attribute n v) = v"
| "InnerText (Element n as cs) = concat (map InnerText cs)"

section \<open>HTTP requests, responses and the greeting handlers\<close>

record request =
  http_method :: string
  path :: string
  query :: "(string \<times> string) list"

text \<open>Of a response, the status code, the content type (if one is set) and the body.\<close>

record response =
  status :: nat
  content_type :: "string option"
  body :: string

definition greeting :: "string \<Rightarrow> string" where
  "greeting n = ''Hello, '' @ n @ ''!''"

definition text_plain :: "string \<Rightarrow> response" where
  "text_plain b = \<lparr>status = 200, content_type = Some ''text/plain'', body = b\<rparr>"

text \<open>
  Modelled from the spec: the package \<open>handlers\<close> (functions \<open>Greet\<close> and \<open>GreetMany\<close>) is
  imported by main.go and is not among the source files. Section 4.1 of the spec:
  \<open>Greet\<close> reads a single optional name parameter (default "World" if absent or
  empty) and returns HTTP 200 with body "Hello, <name>!" and content type text/plain.
\<close>

definition Greet :: "request \<Rightarrow> response" where
  "Greet r =
     (let name = (case map_of (query r) ''name'' of None \<Rightarrow> [] | Some n \<Rightarrow> n)
      in text_plain (greeting (if name = [] then ''World'' else name)))"

text \<open>
  Modelled from the spec: \<open>GreetMany\<close> of the missing package \<open>handlers\<close>. Section 4.1:
  one line "Hello, <name>!" for each name parameter in the order supplied, a single
  line for the default name if none was supplied, the lines joined by newline.
\<close>

fun join_lines :: "string list \<Rightarrow> string" where
  "join_lines [] = []"
| "join_lines [l] = l"
| "join_lines (l # ls) = l @ [CHR 0x0A] @ join_lines ls"

definition GreetMany :: "request \<Rightarrow> response" where
  "GreetMany r =
     (let names = map snd (filter (\<lambda>kv. fst kv = ''name'') (query r))
      in text_plain (join_lines (map greeting (if names = [] then [''World''] else names))))"

section \<open>gorilla/mux: the router\<close>

text \<open>
  \<open>path.Clean\<close> on a rooted path: empty and \<open>.\<close> elements are dropped, \<open>..\<close> removes the
  element before it (and is dropped at the root). The router calls it only on paths
  that start with a slash.
\<close>

fun split_slash :: "string \<Rightarrow> string list" where
  "split_slash [] = [[]]"
| "split_slash (c # cs) =
     (if c = CHR ''/'' then [] # split_slash cs
      else (case split_slash cs of [] \<Rightarrow> [[c]] | e # es \<Rightarrow> (c # e) # es))"

fun clean_elems :: "string list \<Rightarrow> string list \<Rightarrow> string list" where
  "clean_elems [] st = rev st"
| "clean_elems (e # es) st =
     (if e = [] \<or> e = ''.'' then clean_elems es st
      else if e = ''..'' then clean_elems es (tl st)
      else clean_elems es (e # st))"

fun join_slash :: "string list \<Rightarrow> string" where
  "join_slash [] = []"
| "join_slash [e] = e"
| "join_slash (e # es) = e @ ''/'' @ join_slash es"

definition path_Clean :: "string \<Rightarrow> string" where
  "path_Clean p = ''/'' @ join_slash (clean_elems (split_slash p) [])"

text \<open>
  \<open>cleanPath\<close> of mux: the empty path is the root, a missing leading slash is added,
  and a trailing slash survives the cleaning.
\<close>

definition cleanPath :: "string \<Rightarrow> string" where
  "cleanPath p0 =
     (if p0 = [] then ''/''
      else let p = (if hd p0 \<noteq> CHR ''/'' then ''/'' @ p0 else p0);
               np = path_Clean p
           in if last p = CHR ''/'' \<and> np \<noteq> ''/'' then np @ ''/'' else np)"

text \<open>
  A route registered by \<open>HandleFunc(path, f)\<close> matches the request path exactly (the
  templates of main.go have no variables); \<open>Methods\<close> restricts it to the listed
  methods. The router takes the first route that matches path and method. When no
  route matches and some route matched the path but not the method, the answer is
  405; when no route matched the path, it is the standard 404 of \<open>http.NotFound\<close>.
  A request whose path is not in cleaned form is answered with a redirect (301)
  before any route is tried.
\<close>

record route =
  route_path :: string
  route_methods :: "string list"
  route_handler :: "request \<Rightarrow> response"

definition HandleFunc :: "string \<Rightarrow> (request \<Rightarrow> response) \<Rightarrow> route" where
  "HandleFunc p f = \<lparr>route_path = p, route_methods = [], route_handler = f\<rparr>"

definition Methods :: "string list \<Rightarrow> route \<Rightarrow> route" where
  "Methods ms r = r\<lparr>route_methods := ms\<rparr>"

datatype route_match = Matched "request \<Rightarrow> response" | MethodMismatch | NoMatch

fun router_Match :: "route list \<Rightarrow> request \<Rightarrow> bool \<Rightarrow> route_match" where
  "router_Match [] q mismatch = (if mismatch then MethodMismatch else NoMatch)"
| "router_Match (r # rs) q mismatch =
     (if path q = route_path r then
        (if route_methods r = [] \<or> http_method q \<in> set (route_methods r)
         then Matched (route_handler r)
         else router_Match rs q True)
      else router_Match rs q mismatch)"

definition NotFound :: response where
  "NotFound = \<lparr>status = 404, content_type = Some ''text/plain; charset=utf-8'',
      body = ''404 page not found'' @ [CHR 0x0A]\<rparr>"

definition MethodNotAllowed :: response where
  "MethodNotAllowed = \<lparr>status = 405, content_type = None, body = []\<rparr>"

definition MovedPermanently :: response where
  "MovedPermanently = \<lparr>status = 301, content_type = None, body = []\<rparr>"

definition ServeHTTP :: "route list \<Rightarrow> request \<Rightarrow> response" where
  "ServeHTTP router q =
     (if cleanPath (path q) \<noteq> path q then MovedPermanently
      else case router_Match router q False of
             Matched h \<Rightarrow> h q
           | MethodMismatch \<Rightarrow> MethodNotAllowed
           | NoMatch \<Rightarrow> NotFound)"

text \<open>main.go, lines 162 to 165: the router of \<open>runServer\<close>.\<close>

definition router :: "route list" where
  "router = [Methods [''GET''] (HandleFunc ''/greet'' Greet),
             Methods [''GET''] (HandleFunc ''/greet-many'' GreetMany)]"

section \<open>The process: output, panics and exits\<close>

text \<open>
  What the process does that can be observed, in order: lines printed on standard
  output (plain or coloured), log lines, and the events of the listener. A printed
  line keeps its format string and its arguments.
\<close>

datatype colour = Green | Yellow | Cyan

datatype arg =
    AStr string
  | ATime int
  | ANetrc string string string
  | AInt int
  | AErr error

datatype event =
    Println "arg list"
  | Colour colour string "arg list"
  | LogPrintf string "arg list"
  | LogrusInfo string
  | Listening string
  | ListenFailed string error
  | Served request response

text \<open>
  A function either returns or stops the process: by a panic (with an error value,
  or a runtime error such as a nil dereference or a slice out of range) or by
  \<open>os.Exit\<close>. The events emitted up to that point are kept.
\<close>

datatype stop = PanicErr error | PanicRuntime string | OsExit nat

type_synonym 'a io = "event list \<times> (stop + 'a)"

definition ret :: "'a \<Rightarrow> 'a io" where
  "ret x = ([], Inr x)"

definition emit :: "event \<Rightarrow> unit io" where
  "emit e = ([e], Inr ())"

definition halt :: "stop \<Rightarrow> 'a io" where
  "halt s = ([], Inl s)"

definition io_bind :: "'a io \<Rightarrow> ('a \<Rightarrow> 'b io) \<Rightarrow> 'b io" where
  "io_bind m f =
     (case m of
        (es, Inl s) \<Rightarrow> (es, Inl s)
      | (es, Inr x) \<Rightarrow> (case f x of (es', r) \<Rightarrow> (es @ es', r)))"

definition io_seq :: "unit io \<Rightarrow> 'b io \<Rightarrow> 'b io" where
  "io_seq m n = io_bind m (\<lambda>_. n)"

fun io_seqs :: "unit io list \<Rightarrow> unit io" where
  "io_seqs [] = ret ()"
| "io_seqs (m # ms) = io_seq m (io_seqs ms)"

text \<open>The exit status of the process: 0 on return from \<open>main\<close>, 2 after a panic.\<close>

definition exit_code :: "stop + unit \<Rightarrow> nat" where
  "exit_code r = (case r of Inr _ \<Rightarrow> 0 | Inl (OsExit n) \<Rightarrow> n | Inl _ \<Rightarrow> 2)"

section \<open>The environment of one execution\<close>

text \<open>
  Everything the program obtains from outside itself: the results of the library
  calls that touch the file system, the network, the clock or a random source, and
  what happens to the listener. \<open>listener\<close> says whether the bind fails (with the
  text of the system error), or which requests arrive and with which error
  \<open>ListenAndServe\<close> finally returns. \<open>cli\<close>
  says whether cobra runs the root command or returns without running it (a usage
  error, or nil after printing the help).
\<close>

datatype listener = BindFails string | Serves "request list" "error option"

datatype cli = RunCommand | NoRun "error option"

record env =
  cli_outcome :: cli
  godotenv_Load :: "error option"
  yaml_Marshal :: "Config \<Rightarrow> string"
  cache_set_clock :: int
  cache_get_clock :: int
  jwt_clock :: int
  SignedString :: "Token \<Rightarrow> string \<Rightarrow> error + string"
  pb_clock :: int
  xmlquery_LoadURL :: "string \<Rightarrow> error + xnode"
  xmlquery_FindOne :: "xnode \<Rightarrow> string \<Rightarrow> xnode option"
  uuid_NewUUID :: "error + string"
  snowflake_NewNode :: "int \<Rightarrow> error + int"
  snowflake_Generate :: "int \<Rightarrow> int"
  listener_outcome :: listener

section \<open>demonstrateNewDependencies\<close>

definition check :: string where
  "check = [CHR 0xE2, CHR 0x9C, CHR 0x93]"

text \<open>Go's \<open>s[:n]\<close> on a string: a runtime panic when \<open>n\<close> exceeds the length.\<close>

definition slice_to :: "string \<Rightarrow> nat \<Rightarrow> string io" where
  "slice_to s n =
     (if n \<le> length s then ret (take n s)
      else halt (PanicRuntime ''slice bounds out of range''))"

text \<open>
  \<open>assert.True(nil, value, ...)\<close>: returns when the value is true; otherwise it reports
  through the testing handle, which is nil here.
\<close>

definition assert_True :: "bool \<Rightarrow> unit io" where
  "assert_True b = (if b then ret () else halt (PanicRuntime ''nil pointer dereference''))"

text \<open>main.go, lines 71 to 74: the success line is printed when validation passes.\<close>

definition demo_validator :: "Config \<Rightarrow> unit io" where
  "demo_validator config =
     (if validate_Struct config = []
      then emit (Colour Green (check @ '' validator: Config validation passed'') [])
      else ret ())"

text \<open>main.go, lines 77 to 81.\<close>

definition demo_cache_store :: "env \<Rightarrow> cache" where
  "demo_cache_store env =
     cache_Set (cache_New (5 * Minute) (10 * Minute)) ''demo-key'' ''demo-value''
       DefaultExpiration (cache_set_clock env)"

definition demo_cache :: "env \<Rightarrow> unit io" where
  "demo_cache env =
     (case cache_Get (demo_cache_store env) ''demo-key'' (cache_get_clock env) of
        Some val \<Rightarrow>
          emit (Colour Green (check @ '' go-cache: Retrieved value from cache: %s'') [AStr val])
      | None \<Rightarrow> ret ())"

text \<open>main.go, lines 84 to 89. The error of \<open>SignedString\<close> is dropped; the string is empty then.\<close>

definition demo_token :: "env \<Rightarrow> Token" where
  "demo_token env =
     NewWithClaims ''HS256''
       [(''user'', CString ''demo-user''), (''exp'', CInt (Unix (jwt_clock env + Hour * 24)))]"

definition demo_jwt :: "env \<Rightarrow> unit io" where
  "demo_jwt env =
     (let tokenString = (case SignedString env (demo_token env) ''secret-key'' of
                           Inl err \<Rightarrow> [] | Inr s \<Rightarrow> s)
      in io_bind (slice_to tokenString 20) (\<lambda>t.
           emit (Colour Green (check @ '' jwt-go: Generated JWT token (truncated): %s...'')
                   [AStr t])))"

text \<open>main.go, lines 50 to 110. The global viper store is passed in and returned.\<close>

definition demonstrateNewDependencies :: "env \<Rightarrow> viper \<Rightarrow> viper io" where
  "demonstrateNewDependencies env v0 =
     (let v = set_defaults v0;
          config = read_config v;
          yamlData = yaml_Marshal env config
      in io_seq
           (io_seqs
             [emit (Colour Green (check @ '' godotenv: Environment loaded'') []),
              emit (Colour Green (check @ '' viper: Configuration set with defaults'') []),
              emit (Colour Green (check @ '' yaml.v3: Config marshaled to YAML: %s'')
                      [AStr yamlData]),
              demo_validator config,
              demo_cache env,
              demo_jwt env,
              assert_True True,
              emit (Colour Green (check @ '' testify/assert: Assertion passed'') []),
              emit (Colour Green (check @ '' protobuf: Created protobuf timestamp: %v'')
                      [ATime (pb_clock env)]),
              emit (Colour Yellow (check @ '' color: All dependencies demonstrated successfully!'')
                      []),
              emit (Colour Cyan (check @ '' cobra: CLI framework initialized (see rootCmd)'') [])])
           (ret v))"

section \<open>runServer and main\<close>

text \<open>
  \<open>http.ListenAndServe\<close>: a failed bind returns at once the error of \<open>net.Listen\<close>,
  which wraps the system error and is never the sentinel \<open>ErrServerClosed\<close>;
  otherwise the handler answers the requests that arrive, until the call returns.
\<close>

definition bind_error :: "string \<Rightarrow> string \<Rightarrow> error" where
  "bind_error addr m = Wrapped (''listen tcp '' @ addr) (ErrOther m)"

definition ListenAndServe :: "env \<Rightarrow> string \<Rightarrow> (request \<Rightarrow> response) \<Rightarrow> (error option) io" where
  "ListenAndServe env addr h =
     (case listener_outcome env of
        BindFails m \<Rightarrow> ([ListenFailed addr (bind_error addr m)], Inr (Some (bind_error addr m)))
      | Serves qs r \<Rightarrow> (Listening addr # map (\<lambda>q. Served q (h q)) qs, Inr r))"

text \<open>\<open>if err != nil { panic(err) }\<close> after a call that returns a value and an error.\<close>

definition or_panic :: "error + 'a \<Rightarrow> 'a io" where
  "or_panic r = (case r of Inl err \<Rightarrow> halt (PanicErr err) | Inr x \<Rightarrow> ret x)"

text \<open>A method call through a pointer that may be nil (\<open>attr.InnerText()\<close>).\<close>

definition deref :: "'a option \<Rightarrow> 'a io" where
  "deref p = (case p of None \<Rightarrow> halt (PanicRuntime ''nil pointer dereference'') | Some x \<Rightarrow> ret x)"

definition address :: string where
  "address = '':5000''"

text \<open>main.go, lines 171 to 178: the listener's error decides how \<open>runServer\<close> ends.\<close>

definition after_serve :: "error option \<Rightarrow> unit io" where
  "after_serve err =
     (if errors_Is err ErrServerClosed then emit (LogPrintf (''server closed'' @ [CHR 0x0A]) [])
      else (case err of
              Some e \<Rightarrow> io_seq (emit (LogPrintf (''error starting server: %s'' @ [CHR 0x0A]) [AErr e]))
                          (halt (OsExit 1))
            | None \<Rightarrow> ret ()))"

text \<open>main.go, lines 162 to 178: from the router to the end.\<close>

definition serve :: "env \<Rightarrow> unit io" where
  "serve env =
     io_seq (emit (LogPrintf (''server started at port %v'' @ [CHR 0x0A]) [AStr address]))
       (io_bind (ListenAndServe env address (ServeHTTP router)) after_serve)"

text \<open>main.go, lines 130 to 160: the steps between the demonstration and the router.\<close>

definition legacy :: "env \<Rightarrow> unit io" where
  "legacy env =
     io_bind (or_panic (xmlquery_LoadURL env ''https://httpbin.org/get'')) (\<lambda>wadl.
     io_seq (emit (Println [ANetrc ''test'' ''test'' ''test'']))
    (io_seq (emit (LogrusInfo ''Hello world''))
    (io_bind (or_panic (uuid_NewUUID env)) (\<lambda>uuid.
     io_seq (emit (Println [AStr uuid]))
    (io_bind (or_panic (snowflake_NewNode env 1)) (\<lambda>sf.
     io_seq (emit (Println [AInt (snowflake_Generate env sf)]))
    (io_bind (deref (xmlquery_FindOne env wadl ''//application/@xmlns'')) (\<lambda>attr.
     emit (Println [AStr (InnerText attr)])))))))))"

definition banner_open :: "event list" where
  "banner_open =
     [Println [AStr ''Hello world''],
      Colour Cyan ([CHR 0x0A] @ ''=== Demonstrating New Dependencies ==='') []]"

definition banner_close :: event where
  "banner_close = Colour Cyan (''====================================='' @ [CHR 0x0A]) []"

text \<open>main.go, lines 121 to 179.\<close>

definition runServer :: "env \<Rightarrow> viper \<Rightarrow> unit io" where
  "runServer env v0 =
     io_seq (banner_open, Inr ())
    (io_bind (demonstrateNewDependencies env v0) (\<lambda>v.
     io_seq (emit banner_close)
    (io_seq (legacy env) (serve env))))"

text \<open>
  main.go, lines 112 to 119 and 181 to 187: cobra runs \<open>runServer\<close> as the root command
  and returns nil after it; when it returns an error, \<open>main\<close> prints it and exits 1.
  The global viper store is fresh when the process starts.
\<close>

definition main :: "env \<Rightarrow> unit io" where
  "main env =
     (case cli_outcome env of
        RunCommand \<Rightarrow> runServer env viper_New
      | NoRun None \<Rightarrow> ret ()
      | NoRun (Some err) \<Rightarrow> io_seq (emit (Println [AErr err])) (halt (OsExit 1)))"

section \<open>Predicates on executions and sample environments\<close>

definition is_panic :: "stop \<Rightarrow> bool" where
  "is_panic s = (case s of OsExit n \<Rightarrow> False | _ \<Rightarrow> True)"

definition listener_event :: "event \<Rightarrow> bool" where
  "listener_event e =
     (case e of Listening a \<Rightarrow> True | ListenFailed a err \<Rightarrow> True | Served q r \<Rightarrow> True
      | _ \<Rightarrow> False)"

definition served_event :: "event \<Rightarrow> bool" where
  "served_event e = (case e of Served q r \<Rightarrow> True | _ \<Rightarrow> False)"

text \<open>The error \<open>ListenAndServe\<close> returns in an environment.\<close>

definition listen_error :: "env \<Rightarrow> error option" where
  "listen_error env =
     (case listener_outcome env of
        BindFails m \<Rightarrow> Some (bind_error address m)
      | Serves qs r \<Rightarrow> r)"

text \<open>
  The calls between the start of \<open>runServer\<close> and the router that can stop the
  process all succeed: the token has at least the 20 characters that are sliced
  off it, the document is fetched and holds the attribute asked for, and both
  identifier generators return.
\<close>

definition startup_ok :: "env \<Rightarrow> bool" where
  "startup_ok env =
     ((case SignedString env (demo_token env) ''secret-key'' of
         Inl err \<Rightarrow> False | Inr s \<Rightarrow> 20 \<le> length s) \<and>
      (case xmlquery_LoadURL env ''https://httpbin.org/get'' of
         Inl err \<Rightarrow> False
       | Inr wadl \<Rightarrow> xmlquery_FindOne env wadl ''//application/@xmlns'' \<noteq> None) \<and>
      (case uuid_NewUUID env of Inl err \<Rightarrow> False | Inr u \<Rightarrow> True) \<and>
      (case snowflake_NewNode env 1 of Inl err \<Rightarrow> False | Inr n \<Rightarrow> True))"

text \<open>
  An execution in which every call succeeds: the document holds the attribute, two
  requests arrive and the listener is then closed.
\<close>

definition sample_doc :: xnode where
  "sample_doc = Element ''application'' [(''xmlns'', ''http://wadl.dev.java.net/2009/02'')] []"

definition sample_requests :: "request list" where
  "sample_requests =
     [\<lparr>http_method = ''GET'', path = ''/greet'', query = [(''name'', ''Ada'')]\<rparr>,
      \<lparr>http_method = ''GET'', path = ''/unknown'', query = []\<rparr>]"

definition good_env :: env where
  "good_env =
     \<lparr>cli_outcome = RunCommand,
      godotenv_Load = None,
      yaml_Marshal = (\<lambda>c. ''app_name: '' @ AppName c),
      cache_set_clock = 1000 * Second,
      cache_get_clock = 1000 * Second + 5,
      jwt_clock = 1000 * Second + 7,
      SignedString = (\<lambda>t k. Inr ''eyJhbGciOiJIUzI1NiIsInR5cCI6IkpXVCJ9.e30.c2ln''),
      pb_clock = 1000 * Second + 9,
      xmlquery_LoadURL = (\<lambda>u. Inr sample_doc),
      xmlquery_FindOne = (\<lambda>d q. Some (Attribute ''xmlns'' ''http://wadl.dev.java.net/2009/02'')),
      uuid_NewUUID = Inr ''6ba7b810-9dad-11d1-80b4-00c04fd430c8'',
      snowflake_NewNode = (\<lambda>n. Inr n),
      snowflake_Generate = (\<lambda>n. 4096 * n + 1),
      listener_outcome = Serves sample_requests (Some ErrServerClosed)\<rparr>"

text \<open>The same execution, except that one call fails.\<close>

definition fetch_fails_env :: env where
  "fetch_fails_env =
     good_env\<lparr>xmlquery_LoadURL := (\<lambda>u. Inl (ErrOther ''dial tcp: lookup httpbin.org: no such host''))\<rparr>"

definition bind_fails_env :: env where
  "bind_fails_env = good_env\<lparr>listener_outcome := BindFails ''bind: address already in use''\<rparr>"

definition sign_fails_env :: env where
  "sign_fails_env = good_env\<lparr>SignedString := (\<lambda>t k. Inl (ErrOther ''key is invalid''))\<rparr>"

definition cache_miss_env :: env where
  "cache_miss_env = good_env\<lparr>cache_get_clock := 1000 * Second + 5 * Minute + 1\<rparr>"

definition uuid_fails_env :: env where
  "uuid_fails_env = good_env\<lparr>uuid_NewUUID := Inl (ErrOther ''could not read the clock sequence'')\<rparr>"

definition snowflake_fails_env :: env where
  "snowflake_fails_env =
     good_env\<lparr>snowflake_NewNode := (\<lambda>n. Inl (ErrOther ''Node number must be between 0 and 1023''))\<rparr>"

definition accept_fails_env :: env where
  "accept_fails_env =
     good_env\<lparr>listener_outcome :=
       Serves sample_requests (Some (ErrOther ''accept tcp: too many open files''))\<rparr>"

definition no_attribute_env :: env where
  "no_attribute_env = good_env\<lparr>xmlquery_FindOne := (\<lambda>d q. None)\<rparr>"

text \<open>
  An execution in which the environment file cannot be read, the cache entry has
  expired when it is read, and the store already holds a port outside the valid
  range.
\<close>

definition degraded_env :: env where
  "degraded_env =
     good_env\<lparr>godotenv_Load := Some (ErrOther ''open .env: permission denied''),
               cache_get_clock := 1000 * Second + 5 * Minute + 1\<rparr>"

definition low_port_viper :: viper where
  "low_port_viper = viper_New\<lparr>overrides := [''port'' \<mapsto> VInt 80]\<rparr>"

section \<open>Configuration defaults and validation\<close>

lemma startup_config_eq:
  "startup_config = \<lparr>AppName = ''bazel-demo-app'', Port = 5000, Debug = True\<rparr>"
  by (simp add: startup_config_def read_config_def set_defaults_def SetDefault_def
      viper_New_def GetString_def GetInt_def GetBool_def viper_find_def)

lemma validate_Struct_nil_iff:
  "validate_Struct c = [] \<longleftrightarrow> AppName c \<noteq> [] \<and> 1000 \<le> Port c \<and> Port c \<le> 65535"
  by (auto simp: validate_Struct_def)

text \<open>
  Claim C9. The configuration built at startup has the application name
  "bazel-demo-app", the port 5000 and the debug flag true, and it is validated
  against exactly these constraints: validation passes if and only if the name is
  not empty and the port lies between 1000 and 65535; the startup configuration
  passes.
\<close>

theorem C9_config_defaults_and_validation:
  "AppName startup_config = ''bazel-demo-app'' \<and> Port startup_config = 5000 \<and>
   Debug startup_config = True \<and> validate_Struct startup_config = [] \<and>
   (validate_Struct c = [] \<longleftrightarrow> AppName c \<noteq> [] \<and> 1000 \<le> Port c \<and> Port c \<le> 65535)"
  using validate_Struct_nil_iff [of c] by (simp add: startup_config_eq validate_Struct_def)

section \<open>Sequencing of steps\<close>

lemma fst_io_bind:
  "fst (io_bind m f) = fst m @ (case snd m of Inl s \<Rightarrow> [] | Inr x \<Rightarrow> fst (f x))"
  by (cases m) (auto simp: io_bind_def split: sum.splits prod.splits)

lemma snd_io_bind:
  "snd (io_bind m f) = (case snd m of Inl s \<Rightarrow> Inl s | Inr x \<Rightarrow> snd (f x))"
  by (cases m) (auto simp: io_bind_def split: sum.splits prod.splits)

lemma fst_io_seq:
  "fst (io_seq m n) = fst m @ (case snd m of Inl s \<Rightarrow> [] | Inr x \<Rightarrow> fst n)"
  by (simp add: io_seq_def fst_io_bind)

lemma snd_io_seq:
  "snd (io_seq m n) = (case snd m of Inl s \<Rightarrow> Inl s | Inr x \<Rightarrow> snd n)"
  by (simp add: io_seq_def snd_io_bind)

lemma io_emit_ret [simp]:
  "fst (emit e) = [e]" "snd (emit e) = Inr ()"
  "fst (ret x) = []" "snd (ret x) = Inr x"
  "fst (halt s) = []" "snd (halt s) = Inl s"
  by (simp_all add: emit_def ret_def halt_def)

lemmas io_simps = fst_io_bind snd_io_bind fst_io_seq snd_io_seq

lemma snd_demo_validator: "snd (demo_validator c) = Inr ()"
  by (simp add: demo_validator_def)

lemma snd_demo_cache: "snd (demo_cache env) = Inr ()"
  by (simp add: demo_cache_def split: option.splits)

lemma snd_demo:
  "snd (demonstrateNewDependencies env v) =
     (case snd (demo_jwt env) of Inl s \<Rightarrow> Inl s | Inr u \<Rightarrow> Inr (set_defaults v))"
  by (simp add: demonstrateNewDependencies_def Let_def io_simps snd_demo_validator
      snd_demo_cache assert_True_def split: sum.splits)

lemma demo_jwt_cases:
  "demo_jwt env =
     (case SignedString env (demo_token env) ''secret-key'' of
        Inl err \<Rightarrow> ([], Inl (PanicRuntime ''slice bounds out of range''))
      | Inr s \<Rightarrow>
          if 20 \<le> length s
          then ([Colour Green (check @ '' jwt-go: Generated JWT token (truncated): %s...'')
                   [AStr (take 20 s)]], Inr ())
          else ([], Inl (PanicRuntime ''slice bounds out of range'')))"
  by (simp add: demo_jwt_def slice_to_def io_bind_def ret_def halt_def emit_def
      split: sum.splits)

lemma no_listener_demo_validator: "e \<in> set (fst (demo_validator c)) \<Longrightarrow> \<not> listener_event e"
  by (auto simp: demo_validator_def listener_event_def split: if_splits)

lemma no_listener_demo_cache: "e \<in> set (fst (demo_cache env)) \<Longrightarrow> \<not> listener_event e"
  by (auto simp: demo_cache_def listener_event_def split: option.splits)

lemma no_listener_demo_jwt: "e \<in> set (fst (demo_jwt env)) \<Longrightarrow> \<not> listener_event e"
  by (auto simp: demo_jwt_cases listener_event_def split: sum.splits if_splits)

lemma no_listener_demo:
  "e \<in> set (fst (demonstrateNewDependencies env v)) \<Longrightarrow> \<not> listener_event e"
  using no_listener_demo_validator no_listener_demo_cache no_listener_demo_jwt
  by (auto simp: demonstrateNewDependencies_def Let_def io_simps assert_True_def
      listener_event_def split: sum.splits)

section \<open>The steps of runServer\<close>

lemma or_panic_simps [simp]:
  "or_panic (Inl err) = halt (PanicErr err)" "or_panic (Inr x) = ret x"
  by (simp_all add: or_panic_def)

lemma deref_simps [simp]:
  "deref None = halt (PanicRuntime ''nil pointer dereference'')" "deref (Some x) = ret x"
  by (simp_all add: deref_def)

lemma no_listener_legacy: "e \<in> set (fst (legacy env)) \<Longrightarrow> \<not> listener_event e"
  by (auto simp: legacy_def io_simps listener_event_def or_panic_def deref_def
      split: sum.splits option.splits)

lemma snd_legacy:
  "snd (legacy env) =
     (case xmlquery_LoadURL env ''https://httpbin.org/get'' of
        Inl err \<Rightarrow> Inl (PanicErr err)
      | Inr wadl \<Rightarrow>
         (case uuid_NewUUID env of
            Inl err \<Rightarrow> Inl (PanicErr err)
          | Inr u \<Rightarrow>
             (case snowflake_NewNode env 1 of
                Inl err \<Rightarrow> Inl (PanicErr err)
              | Inr sf \<Rightarrow>
                 (case xmlquery_FindOne env wadl ''//application/@xmlns'' of
                    None \<Rightarrow> Inl (PanicRuntime ''nil pointer dereference'')
                  | Some attr \<Rightarrow> Inr ()))))"
  by (simp add: legacy_def io_simps split: sum.splits option.splits)

lemma snd_legacy_is_panic: "snd (legacy env) = Inl s \<Longrightarrow> is_panic s"
  by (auto simp: snd_legacy is_panic_def split: sum.splits option.splits)

lemma snd_demo_is_panic: "snd (demonstrateNewDependencies env v) = Inl s \<Longrightarrow> is_panic s"
  by (auto simp: snd_demo demo_jwt_cases is_panic_def split: sum.splits if_splits)

lemma fst_runServer:
  "fst (runServer env v) =
     banner_open @ fst (demonstrateNewDependencies env v) @
     (case snd (demonstrateNewDependencies env v) of
        Inl s \<Rightarrow> []
      | Inr v' \<Rightarrow> banner_close # fst (legacy env) @
                 (case snd (legacy env) of Inl s \<Rightarrow> [] | Inr u \<Rightarrow> fst (serve env)))"
  by (simp add: runServer_def io_simps split: sum.splits)

lemma snd_runServer:
  "snd (runServer env v) =
     (case snd (demonstrateNewDependencies env v) of
        Inl s \<Rightarrow> Inl s
      | Inr v' \<Rightarrow> (case snd (legacy env) of Inl s \<Rightarrow> Inl s | Inr u \<Rightarrow> snd (serve env)))"
  by (simp add: runServer_def io_simps split: sum.splits)

lemma startup_ok_iff:
  "startup_ok env \<longleftrightarrow>
     (\<exists>v'. snd (demonstrateNewDependencies env v) = Inr v') \<and> snd (legacy env) = Inr ()"
  by (auto simp: startup_ok_def snd_demo demo_jwt_cases snd_legacy
      split: sum.splits option.splits if_splits)

lemma fst_serve:
  "fst (serve env) =
     LogPrintf (''server started at port %v'' @ [CHR 0x0A]) [AStr address] #
     (case listener_outcome env of
        BindFails m \<Rightarrow>
          [ListenFailed address (bind_error address m),
           LogPrintf (''error starting server: %s'' @ [CHR 0x0A]) [AErr (bind_error address m)]]
      | Serves qs r \<Rightarrow>
          Listening address # map (\<lambda>q. Served q (ServeHTTP router q)) qs @
          (if errors_Is r ErrServerClosed then [LogPrintf (''server closed'' @ [CHR 0x0A]) []]
           else case r of
                  Some e \<Rightarrow> [LogPrintf (''error starting server: %s'' @ [CHR 0x0A]) [AErr e]]
                | None \<Rightarrow> []))"
  by (simp add: serve_def io_simps ListenAndServe_def after_serve_def errors_Is_def
      bind_error_def split: listener.splits option.splits)

lemma snd_serve:
  "snd (serve env) =
     (if errors_Is (listen_error env) ErrServerClosed then Inr ()
      else case listen_error env of None \<Rightarrow> Inr () | Some e \<Rightarrow> Inl (OsExit 1))"
  by (simp add: serve_def io_simps ListenAndServe_def after_serve_def listen_error_def
      split: listener.splits option.splits)

lemma main_RunCommand: "cli_outcome env = RunCommand \<Longrightarrow> main env = runServer env viper_New"
  by (simp add: main_def)

lemma runServer_startup_ok:
  "startup_ok env \<Longrightarrow> snd (runServer env v) = snd (serve env)"
  using startup_ok_iff [of env v] by (auto simp: snd_runServer)

lemma chain_has_bind_error [simp]: "\<not> chain_has (bind_error a m) ErrServerClosed"
  by (simp add: bind_error_def)

lemma good_env_startup_ok: "startup_ok good_env"
  by (simp add: startup_ok_def good_env_def)

section \<open>Exit codes\<close>

text \<open>
  Claim C3. When the root command runs and the calls before the listener succeed,
  the process exits with code 0 if \<open>ListenAndServe\<close> returns the server-closed
  error, and with a non-zero code if the bind fails or the listener ends with any
  other error.
\<close>

theorem C3_exit_codes:
  assumes "cli_outcome env = RunCommand" and "startup_ok env"
  shows "(errors_Is (listen_error env) ErrServerClosed \<longrightarrow> exit_code (snd (main env)) = 0) \<and>
         (\<forall>m. listener_outcome env = BindFails m \<longrightarrow> exit_code (snd (main env)) \<noteq> 0) \<and>
         (\<forall>qs e. listener_outcome env = Serves qs (Some e) \<and> \<not> errors_Is (Some e) ErrServerClosed
                   \<longrightarrow> exit_code (snd (main env)) \<noteq> 0)"
proof -
  have m: "snd (main env) = snd (serve env)"
    using assms by (simp add: main_RunCommand runServer_startup_ok)
  show ?thesis
    by (auto simp: m snd_serve exit_code_def listen_error_def errors_Is_def)
qed

theorem C3_exit_codes_witness:
  "cli_outcome good_env = RunCommand \<and> startup_ok good_env \<and>
   errors_Is (listen_error good_env) ErrServerClosed \<and> exit_code (snd (main good_env)) = 0 \<and>
   cli_outcome bind_fails_env = RunCommand \<and> startup_ok bind_fails_env \<and>
   listener_outcome bind_fails_env = BindFails ''bind: address already in use'' \<and>
   exit_code (snd (main bind_fails_env)) \<noteq> 0 \<and>
   cli_outcome accept_fails_env = RunCommand \<and> startup_ok accept_fails_env \<and>
   listener_outcome accept_fails_env =
     Serves sample_requests (Some (ErrOther ''accept tcp: too many open files'')) \<and>
   \<not> errors_Is (Some (ErrOther ''accept tcp: too many open files'')) ErrServerClosed \<and>
   exit_code (snd (main accept_fails_env)) \<noteq> 0"
proof -
  have a: "cli_outcome good_env = RunCommand" "startup_ok good_env"
    by (simp_all add: good_env_def startup_ok_def)
  have b: "cli_outcome bind_fails_env = RunCommand" "startup_ok bind_fails_env"
    by (simp_all add: bind_fails_env_def good_env_def startup_ok_def)
  have c: "cli_outcome accept_fails_env = RunCommand" "startup_ok accept_fails_env"
    by (simp_all add: accept_fails_env_def good_env_def startup_ok_def)
  have d: "errors_Is (listen_error good_env) ErrServerClosed"
    by (simp add: good_env_def listen_error_def errors_Is_def)
  have e: "listener_outcome bind_fails_env = BindFails ''bind: address already in use''"
    by (simp add: bind_fails_env_def)
  have f: "listener_outcome accept_fails_env =
             Serves sample_requests (Some (ErrOther ''accept tcp: too many open files''))"
    "\<not> errors_Is (Some (ErrOther ''accept tcp: too many open files'')) ErrServerClosed"
    by (simp_all add: accept_fails_env_def errors_Is_def)
  show ?thesis
    using C3_exit_codes [OF a] C3_exit_codes [OF b] C3_exit_codes [OF c] a b c d e f by simp
qed

section \<open>The demonstration runs before the listener\<close>

lemma no_listener_banner_open: "e \<in> set banner_open \<Longrightarrow> \<not> listener_event e"
  by (auto simp: banner_open_def listener_event_def)

lemma no_listener_banner_close: "\<not> listener_event banner_close"
  by (simp add: banner_close_def listener_event_def)

lemmas run_defs = runServer_def demonstrateNewDependencies_def legacy_def serve_def
  demo_validator_def demo_cache_def demo_jwt_def demo_cache_store_def demo_token_def
  ListenAndServe_def after_serve_def banner_open_def banner_close_def
  io_bind_def io_seq_def emit_def ret_def halt_def or_panic_def deref_def slice_to_def
  assert_True_def cache_New_def cache_Set_def cache_Get_def DefaultExpiration_def
  Minute_def Second_def Hour_def errors_Is_def read_config_def set_defaults_def
  SetDefault_def GetString_def GetInt_def GetBool_def viper_find_def validate_Struct_def
  NewWithClaims_def Unix_def

text \<open>
  Claim C4. In every execution of \<open>runServer\<close>, an event of the listener (the bind, or
  a request being served) is preceded by the whole demonstration: the call of
  \<open>demonstrateNewDependencies\<close> has returned, and all the events it emitted lie
  before the listener's event in the trace. So no request is handled before the
  demonstration steps have finished.
\<close>

theorem C4_demo_completes_before_listener:
  assumes "i < length (fst (runServer env v))"
    and "listener_event (fst (runServer env v) ! i)"
  shows "\<exists>v'. snd (demonstrateNewDependencies env v) = Inr v' \<and>
           take (length banner_open + length (fst (demonstrateNewDependencies env v)))
                (fst (runServer env v))
             = banner_open @ fst (demonstrateNewDependencies env v) \<and>
           length banner_open + length (fst (demonstrateNewDependencies env v)) \<le> i"
proof -
  let ?d = "demonstrateNewDependencies env v"
  let ?es = "fst (runServer env v)"
  let ?pre = "banner_open @ fst ?d"
  have pre_quiet: "\<not> listener_event e" if "e \<in> set ?pre" for e
    using that no_listener_banner_open no_listener_demo by auto
  obtain rest where es: "?es = ?pre @ rest"
    by (simp add: fst_runServer)
  have done_demo: "\<exists>v'. snd ?d = Inr v'"
  proof (cases "snd ?d")
    case (Inl s)
    then have "?es = ?pre" by (simp add: fst_runServer)
    then have "?es ! i \<in> set ?pre" using assms(1) by (metis nth_mem)
    then show ?thesis using pre_quiet assms(2) by blast
  next
    case (Inr v')
    then show ?thesis by blast
  qed
  have "length ?pre \<le> i"
  proof (rule ccontr)
    assume "\<not> length ?pre \<le> i"
    then have "i < length ?pre" by simp
    then have "?es ! i \<in> set ?pre" by (metis es nth_append nth_mem)
    then show False using pre_quiet assms(2) by blast
  qed
  moreover have "take (length banner_open + length (fst ?d)) ?es = ?pre"
    using es by simp
  ultimately show ?thesis using done_demo by auto
qed

theorem C4_demo_completes_before_listener_witness:
  "19 < length (fst (runServer good_env viper_New)) \<and>
   listener_event (fst (runServer good_env viper_New) ! 19) \<and>
   snd (demonstrateNewDependencies good_env viper_New) = Inr (set_defaults viper_New) \<and>
   length banner_open + length (fst (demonstrateNewDependencies good_env viper_New)) \<le> 19"
proof -
  have es: "fst (runServer good_env viper_New) ! 19 = Listening address"
    "length (fst (runServer good_env viper_New)) = 23"
    by (simp_all add: run_defs good_env_def viper_New_def sample_requests_def)
  have h1: "19 < length (fst (runServer good_env viper_New))" by (simp add: es)
  have h2: "listener_event (fst (runServer good_env viper_New) ! 19)"
    by (simp add: es listener_event_def)
  have d: "snd (demonstrateNewDependencies good_env viper_New) = Inr (set_defaults viper_New)"
    by (simp add: snd_demo demo_jwt_cases good_env_def)
  show ?thesis
    using C4_demo_completes_before_listener [OF h1 h2] h1 h2 d by simp
qed

section \<open>The missing attribute\<close>

text \<open>
  Claim C10. When the document has been fetched and the query
  \<open>//application/@xmlns\<close> finds no node, \<open>runServer\<close> ends in a panic and the trace
  holds no event of the listener: the process never serves a request. When the
  steps before the query succeed, the panic is the nil dereference of
  \<open>attr.InnerText()\<close>.
\<close>

theorem C10_missing_attribute_panics:
  assumes "xmlquery_LoadURL env ''https://httpbin.org/get'' = Inr wadl"
    and "xmlquery_FindOne env wadl ''//application/@xmlns'' = None"
  shows "(\<exists>s. snd (runServer env v) = Inl s \<and> is_panic s) \<and>
         (\<forall>e \<in> set (fst (runServer env v)). \<not> listener_event e) \<and>
         ((\<exists>s u n. SignedString env (demo_token env) ''secret-key'' = Inr s \<and> 20 \<le> length s \<and>
                   uuid_NewUUID env = Inr u \<and> snowflake_NewNode env 1 = Inr n)
          \<longrightarrow> snd (runServer env v) = Inl (PanicRuntime ''nil pointer dereference''))"
proof -
  have leg: "\<exists>s. snd (legacy env) = Inl s"
    using assms by (simp add: snd_legacy split: sum.splits)
  then obtain s where s: "snd (legacy env) = Inl s" by blast
  have stop: "\<exists>s. snd (runServer env v) = Inl s \<and> is_panic s"
  proof (cases "snd (demonstrateNewDependencies env v)")
    case (Inl t)
    then show ?thesis using snd_demo_is_panic [OF Inl] by (simp add: snd_runServer)
  next
    case (Inr v')
    then show ?thesis using s snd_legacy_is_panic [OF s] by (simp add: snd_runServer)
  qed
  have quiet: "\<forall>e \<in> set (fst (runServer env v)). \<not> listener_event e"
    using s no_listener_banner_open no_listener_banner_close no_listener_demo no_listener_legacy
    by (auto simp: fst_runServer split: sum.splits)
  have nil: "snd (runServer env v) = Inl (PanicRuntime ''nil pointer dereference'')"
    if "SignedString env (demo_token env) ''secret-key'' = Inr t" "20 \<le> length t"
       "uuid_NewUUID env = Inr u" "snowflake_NewNode env 1 = Inr n" for t u n
    using that assms by (simp add: snd_runServer snd_demo demo_jwt_cases snd_legacy)
  show ?thesis using stop quiet nil by blast
qed

theorem C10_missing_attribute_panics_witness:
  "xmlquery_LoadURL no_attribute_env ''https://httpbin.org/get'' = Inr sample_doc \<and>
   xmlquery_FindOne no_attribute_env sample_doc ''//application/@xmlns'' = None \<and>
   snd (runServer no_attribute_env viper_New) = Inl (PanicRuntime ''nil pointer dereference'')"
proof -
  have a: "xmlquery_LoadURL no_attribute_env ''https://httpbin.org/get'' = Inr sample_doc"
    by (simp add: no_attribute_env_def good_env_def)
  have b: "xmlquery_FindOne no_attribute_env sample_doc ''//application/@xmlns'' = None"
    by (simp add: no_attribute_env_def)
  have c: "SignedString no_attribute_env (demo_token no_attribute_env) ''secret-key''
             = Inr ''eyJhbGciOiJIUzI1NiIsInR5cCI6IkpXVCJ9.e30.c2ln''"
    "uuid_NewUUID no_attribute_env = Inr ''6ba7b810-9dad-11d1-80b4-00c04fd430c8''"
    "snowflake_NewNode no_attribute_env 1 = Inr 1"
    by (simp_all add: no_attribute_env_def good_env_def)
  show ?thesis
    using C10_missing_attribute_panics [OF a b, of viper_New] a b c by simp
qed

section \<open>Which failures stop the process\<close>

text \<open>
  Claim C1 as stated fails: a failure of the XML fetch, one of the steps it lists, is
  fatal. In the execution below the listener would have been closed gracefully, the
  fetch fails, and the process ends in \<open>panic(err)\<close> (main.go, line 132) with exit
  status 2.
\<close>

theorem C1_counterexample:
  "cli_outcome fetch_fails_env = RunCommand \<and>
   listener_outcome fetch_fails_env = Serves sample_requests (Some ErrServerClosed) \<and>
   snd (main fetch_fails_env) =
     Inl (PanicErr (ErrOther ''dial tcp: lookup httpbin.org: no such host'')) \<and>
   exit_code (snd (main fetch_fails_env)) = 2"
  by (simp add: main_def fetch_fails_env_def good_env_def snd_runServer snd_demo demo_jwt_cases
      snd_legacy exit_code_def)

text \<open>
  Claim C1, amended. No failure of the environment load, of the configuration
  validation or of the cache read takes the process to a fatal exit: whenever the
  token is signed, the document is fetched and holds the attribute, and both
  identifier generators return, \<open>runServer\<close> ends exactly as the listener decides,
  and it ends fatally only when the listener returns an error other than the
  server-closed one (a failed bind included). This holds for every result of
  \<open>godotenv.Load\<close>, every reading of the clock by the cache and every content of the
  configuration store. A failure of the XML fetch, of the UUID generator or of the
  snowflake node, on the other hand, panics with the error.
\<close>

theorem C1_fatal_paths:
  "(startup_ok env \<longrightarrow>
      snd (runServer env v) = snd (serve env) \<and>
      (snd (runServer env v) \<noteq> Inr () \<longleftrightarrow>
         (\<exists>e. listen_error env = Some e \<and> \<not> errors_Is (Some e) ErrServerClosed))) \<and>
   (snd (demonstrateNewDependencies env v) = Inr (set_defaults v) \<longrightarrow>
      (\<forall>err. xmlquery_LoadURL env ''https://httpbin.org/get'' = Inl err \<longrightarrow>
         snd (runServer env v) = Inl (PanicErr err)) \<and>
      (\<forall>wadl err. xmlquery_LoadURL env ''https://httpbin.org/get'' = Inr wadl \<and>
         uuid_NewUUID env = Inl err \<longrightarrow> snd (runServer env v) = Inl (PanicErr err)) \<and>
      (\<forall>wadl u err. xmlquery_LoadURL env ''https://httpbin.org/get'' = Inr wadl \<and>
         uuid_NewUUID env = Inr u \<and> snowflake_NewNode env 1 = Inl err \<longrightarrow>
         snd (runServer env v) = Inl (PanicErr err)))"
proof -
  have a: "snd (runServer env v) = snd (serve env)" if "startup_ok env"
    using that by (rule runServer_startup_ok)
  have b: "snd (serve env) \<noteq> Inr () \<longleftrightarrow>
            (\<exists>e. listen_error env = Some e \<and> \<not> errors_Is (Some e) ErrServerClosed)"
    by (auto simp: snd_serve errors_Is_def split: option.splits)
  have c: "snd (runServer env v) = snd (legacy env)"
    if "snd (demonstrateNewDependencies env v) = Inr (set_defaults v)"
       "\<exists>s. snd (legacy env) = Inl s"
    using that by (auto simp: snd_runServer)
  show ?thesis
    using a b by (auto simp: snd_runServer snd_legacy)
qed


theorem C1_fatal_paths_witness:
  "startup_ok degraded_env \<and>
   godotenv_Load degraded_env = Some (ErrOther ''open .env: permission denied'') \<and>
   validate_Struct (read_config (set_defaults low_port_viper)) = [(''Port'', ''min'')] \<and>
   cache_Get (demo_cache_store degraded_env) ''demo-key'' (cache_get_clock degraded_env) = None \<and>
   snd (runServer degraded_env low_port_viper) = Inr () \<and>
   snd (demonstrateNewDependencies fetch_fails_env viper_New) = Inr (set_defaults viper_New) \<and>
   xmlquery_LoadURL fetch_fails_env ''https://httpbin.org/get''
     = Inl (ErrOther ''dial tcp: lookup httpbin.org: no such host'') \<and>
   snd (runServer fetch_fails_env viper_New)
     = Inl (PanicErr (ErrOther ''dial tcp: lookup httpbin.org: no such host'')) \<and>
   snd (runServer uuid_fails_env viper_New)
     = Inl (PanicErr (ErrOther ''could not read the clock sequence'')) \<and>
   snd (runServer snowflake_fails_env viper_New)
     = Inl (PanicErr (ErrOther ''Node number must be between 0 and 1023''))"
proof -
  have a: "startup_ok degraded_env"
    by (simp add: degraded_env_def good_env_def startup_ok_def)
  have b: "godotenv_Load degraded_env = Some (ErrOther ''open .env: permission denied'')"
    by (simp add: degraded_env_def)
  have c: "validate_Struct (read_config (set_defaults low_port_viper)) = [(''Port'', ''min'')]"
    by (simp add: validate_Struct_def read_config_def set_defaults_def SetDefault_def
        low_port_viper_def viper_New_def GetString_def GetInt_def GetBool_def viper_find_def)
  have d: "cache_Get (demo_cache_store degraded_env) ''demo-key'' (cache_get_clock degraded_env)
             = None"
    by (simp add: demo_cache_store_def cache_Get_def cache_Set_def cache_New_def
        DefaultExpiration_def degraded_env_def good_env_def Minute_def Second_def)
  have e: "listen_error degraded_env = Some ErrServerClosed"
    by (simp add: listen_error_def degraded_env_def good_env_def)
  have f: "snd (demonstrateNewDependencies fetch_fails_env viper_New) = Inr (set_defaults viper_New)"
    "snd (demonstrateNewDependencies uuid_fails_env viper_New) = Inr (set_defaults viper_New)"
    "snd (demonstrateNewDependencies snowflake_fails_env viper_New) = Inr (set_defaults viper_New)"
    by (simp_all add: snd_demo demo_jwt_cases fetch_fails_env_def uuid_fails_env_def
        snowflake_fails_env_def good_env_def)
  have g: "xmlquery_LoadURL fetch_fails_env ''https://httpbin.org/get''
             = Inl (ErrOther ''dial tcp: lookup httpbin.org: no such host'')"
    "xmlquery_LoadURL uuid_fails_env ''https://httpbin.org/get'' = Inr sample_doc"
    "uuid_NewUUID uuid_fails_env = Inl (ErrOther ''could not read the clock sequence'')"
    "xmlquery_LoadURL snowflake_fails_env ''https://httpbin.org/get'' = Inr sample_doc"
    "uuid_NewUUID snowflake_fails_env = Inr ''6ba7b810-9dad-11d1-80b4-00c04fd430c8''"
    "snowflake_NewNode snowflake_fails_env 1
       = Inl (ErrOther ''Node number must be between 0 and 1023'')"
    by (simp_all add: fetch_fails_env_def uuid_fails_env_def snowflake_fails_env_def good_env_def)
  show ?thesis
    using C1_fatal_paths [of degraded_env low_port_viper]
      C1_fatal_paths [of fetch_fails_env viper_New]
      C1_fatal_paths [of uuid_fails_env viper_New]
      C1_fatal_paths [of snowflake_fails_env viper_New]
      a b c d e f g
    by (simp add: snd_serve errors_Is_def)
qed

section \<open>The startup message and the bind\<close>

lemma fst_runServer_startup_ok:
  assumes "startup_ok env"
  shows "fst (runServer env v) =
           (banner_open @ fst (demonstrateNewDependencies env v) @ banner_close # fst (legacy env))
           @ fst (serve env)"
  using assms startup_ok_iff [of env v] by (auto simp: fst_runServer)

text \<open>
  Claim C6 as stated fails: the startup message is logged at line 169, before
  \<open>ListenAndServe\<close> is called at line 171. In the execution below the bind fails, and
  the message stands in the trace directly before the failed bind.
\<close>

theorem C6_counterexample:
  "listener_outcome bind_fails_env = BindFails ''bind: address already in use'' \<and>
   take 2 (drop 18 (fst (main bind_fails_env))) =
     [LogPrintf (''server started at port %v'' @ [CHR 0x0A]) [AStr '':5000''],
      ListenFailed '':5000'' (bind_error '':5000'' ''bind: address already in use'')]"
  by (simp add: main_def run_defs bind_fails_env_def good_env_def viper_New_def address_def)

text \<open>
  Claim C6, amended. In every execution that reaches the listener, the startup
  message with the address is logged before the bind is attempted, whether the bind
  then succeeds or fails, and no event of the listener comes before it. On bind
  failure nothing is served: the failed bind is followed only by the log line of
  the error, and the process exits with status 1. On a successful bind the
  requests are served after the message.
\<close>

theorem C6_started_message_precedes_bind:
  assumes "startup_ok env"
  shows "\<exists>pre rest.
           fst (runServer env v) =
             pre @ LogPrintf (''server started at port %v'' @ [CHR 0x0A]) [AStr address] # rest \<and>
           (\<forall>e \<in> set pre. \<not> listener_event e) \<and>
           (\<forall>m. listener_outcome env = BindFails m \<longrightarrow>
              rest = [ListenFailed address (bind_error address m),
                      LogPrintf (''error starting server: %s'' @ [CHR 0x0A])
                        [AErr (bind_error address m)]] \<and>
              snd (runServer env v) = Inl (OsExit 1)) \<and>
           (\<forall>qs r. listener_outcome env = Serves qs r \<longrightarrow>
              take (Suc (length qs)) rest =
                Listening address # map (\<lambda>q. Served q (ServeHTTP router q)) qs)"
proof -
  let ?pre = "banner_open @ fst (demonstrateNewDependencies env v) @ banner_close # fst (legacy env)"
  obtain rest where rest: "fst (serve env) =
      LogPrintf (''server started at port %v'' @ [CHR 0x0A]) [AStr address] # rest"
    by (simp add: fst_serve)
  have es: "fst (runServer env v) =
      ?pre @ LogPrintf (''server started at port %v'' @ [CHR 0x0A]) [AStr address] # rest"
    using fst_runServer_startup_ok [OF assms, of v] rest by simp
  have quiet: "\<forall>e \<in> set ?pre. \<not> listener_event e"
    using no_listener_banner_open no_listener_banner_close no_listener_demo no_listener_legacy
    by auto
  have fails: "rest = [ListenFailed address (bind_error address m),
                      LogPrintf (''error starting server: %s'' @ [CHR 0x0A])
                        [AErr (bind_error address m)]] \<and>
              snd (runServer env v) = Inl (OsExit 1)"
    if "listener_outcome env = BindFails m" for m
    using that rest runServer_startup_ok [OF assms, of v]
    by (simp add: fst_serve snd_serve listen_error_def errors_Is_def)
  have serves: "take (Suc (length qs)) rest =
                Listening address # map (\<lambda>q. Served q (ServeHTTP router q)) qs"
    if "listener_outcome env = Serves qs r" for qs r
    using that rest by (auto simp: fst_serve)
  show ?thesis
    using es quiet fails serves by blast
qed

theorem C6_started_message_precedes_bind_witness:
  "startup_ok bind_fails_env \<and>
   listener_outcome bind_fails_env = BindFails ''bind: address already in use'' \<and>
   snd (runServer bind_fails_env viper_New) = Inl (OsExit 1) \<and>
   startup_ok good_env \<and>
   listener_outcome good_env = Serves sample_requests (Some ErrServerClosed) \<and>
   (\<exists>pre rest. fst (runServer good_env viper_New) =
      pre @ LogPrintf (''server started at port %v'' @ [CHR 0x0A]) [AStr address] # rest \<and>
      take (Suc (length sample_requests)) rest =
        Listening address # map (\<lambda>q. Served q (ServeHTTP router q)) sample_requests)"
proof -
  have a: "startup_ok bind_fails_env"
    by (simp add: bind_fails_env_def good_env_def startup_ok_def)
  have b: "listener_outcome bind_fails_env = BindFails ''bind: address already in use''"
    by (simp add: bind_fails_env_def)
  have c: "startup_ok good_env"
    by (simp add: good_env_def startup_ok_def)
  have d: "listener_outcome good_env = Serves sample_requests (Some ErrServerClosed)"
    by (simp add: good_env_def)
  have e: "snd (runServer bind_fails_env viper_New) = Inl (OsExit 1)"
    using C6_started_message_precedes_bind [OF a, of viper_New] b by auto
  have f: "\<exists>pre rest. fst (runServer good_env viper_New) =
      pre @ LogPrintf (''server started at port %v'' @ [CHR 0x0A]) [AStr address] # rest \<and>
      take (Suc (length sample_requests)) rest =
        Listening address # map (\<lambda>q. Served q (ServeHTTP router q)) sample_requests"
    using C6_started_message_precedes_bind [OF c, of viper_New] d by blast
  show ?thesis
    using a b c d e f by simp
qed

section \<open>The token step\<close>

lemma Unix_add_day: "Unix (t + Hour * 24) = Unix t + 86400"
proof -
  have "t + Hour * 24 = t + 86400 * Second"
    by (simp add: Hour_def Minute_def)
  then show ?thesis
    by (simp add: Unix_def Second_def)
qed

text \<open>
  Claim C7 as stated fails: the error of \<open>SignedString\<close> is assigned to the blank
  identifier at line 88, so a signing failure is not logged. In the execution
  below signing fails; the step emits no line, and the process does not go on.
\<close>

theorem C7_counterexample:
  "SignedString sign_fails_env (demo_token sign_fails_env) ''secret-key''
     = Inl (ErrOther ''key is invalid'') \<and>
   demo_jwt sign_fails_env = ([], Inl (PanicRuntime ''slice bounds out of range'')) \<and>
   snd (main sign_fails_env) = Inl (PanicRuntime ''slice bounds out of range'')"
  by (simp add: main_def sign_fails_env_def good_env_def snd_runServer snd_demo demo_jwt_cases)

text \<open>
  Claim C7, amended. The token step builds an HS256 token whose claim set is
  user = "demo-user" and exp = the current Unix time plus 24 hours (86400 seconds),
  and has it signed with a fixed key. When signing yields a token of at least 20
  characters, the step prints one success line with the first 20 characters and
  returns. The signing error is discarded: on a signing failure the step logs
  nothing.
\<close>

theorem C7_jwt_step:
  "Method (demo_token env) = ''HS256'' \<and>
   Claims (demo_token env) =
     [(''user'', CString ''demo-user''), (''exp'', CInt (Unix (jwt_clock env) + 86400))] \<and>
   (\<forall>s. SignedString env (demo_token env) ''secret-key'' = Inr s \<and> 20 \<le> length s \<longrightarrow>
      demo_jwt env =
        ([Colour Green (check @ '' jwt-go: Generated JWT token (truncated): %s...'')
            [AStr (take 20 s)]], Inr ())) \<and>
   (\<forall>err. SignedString env (demo_token env) ''secret-key'' = Inl err \<longrightarrow>
      fst (demo_jwt env) = [])"
  by (simp add: demo_jwt_cases) (simp add: demo_token_def NewWithClaims_def Unix_add_day)

theorem C7_jwt_step_witness:
  "SignedString good_env (demo_token good_env) ''secret-key''
     = Inr ''eyJhbGciOiJIUzI1NiIsInR5cCI6IkpXVCJ9.e30.c2ln'' \<and>
   demo_jwt good_env =
     ([Colour Green (check @ '' jwt-go: Generated JWT token (truncated): %s...'')
         [AStr ''eyJhbGciOiJIUzI1NiIs'']], Inr ()) \<and>
   SignedString sign_fails_env (demo_token sign_fails_env) ''secret-key''
     = Inl (ErrOther ''key is invalid'') \<and>
   fst (demo_jwt sign_fails_env) = []"
proof -
  have a: "SignedString good_env (demo_token good_env) ''secret-key''
     = Inr ''eyJhbGciOiJIUzI1NiIsInR5cCI6IkpXVCJ9.e30.c2ln''"
    by (simp add: good_env_def)
  have b: "SignedString sign_fails_env (demo_token sign_fails_env) ''secret-key''
     = Inl (ErrOther ''key is invalid'')"
    by (simp add: sign_fails_env_def)
  show ?thesis
    using C7_jwt_step [of good_env] C7_jwt_step [of sign_fails_env] a b by simp
qed

section \<open>The cache step\<close>

text \<open>
  Claim C8 as stated fails: the read at line 79 has no else branch, so a miss is
  not logged. In the execution below the entry is read after it has expired; the
  read misses and the step emits nothing.
\<close>

theorem C8_counterexample:
  "cache_Get (demo_cache_store cache_miss_env) ''demo-key'' (cache_get_clock cache_miss_env) = None \<and>
   demo_cache cache_miss_env = ([], Inr ())"
  by (simp add: demo_cache_def demo_cache_store_def cache_Get_def cache_Set_def cache_New_def
      DefaultExpiration_def cache_miss_env_def good_env_def Minute_def Second_def ret_def)

text \<open>
  Claim C8, amended. The cache step stores exactly one pair, "demo-key" with the
  value "demo-value", expiring 5 minutes after the instant of the store, and reads
  it back at once. A hit prints one success line with the value; a miss (the read
  falls after the instant of expiry) prints nothing. In both cases the step
  returns and the process goes on. The value read is not compared with the value
  stored.
\<close>

theorem C8_cache_step:
  "items (demo_cache_store env) =
     [''demo-key'' \<mapsto> \<lparr>Object = ''demo-value'', Expiration = cache_set_clock env + 5 * Minute\<rparr>] \<and>
   demo_cache env =
     (if 0 < cache_set_clock env + 5 * Minute \<and>
         cache_set_clock env + 5 * Minute < cache_get_clock env
      then []
      else [Colour Green (check @ '' go-cache: Retrieved value from cache: %s'')
              [AStr ''demo-value'']],
      Inr ())"
  by (simp add: demo_cache_def demo_cache_store_def cache_Get_def cache_Set_def cache_New_def
      DefaultExpiration_def Minute_def Second_def ret_def emit_def)

theorem C8_cache_step_witness:
  "demo_cache good_env =
     ([Colour Green (check @ '' go-cache: Retrieved value from cache: %s'') [AStr ''demo-value'']],
      Inr ()) \<and>
   demo_cache degraded_env = ([], Inr ())"
  using C8_cache_step [of good_env] C8_cache_step [of degraded_env]
  by (simp add: good_env_def degraded_env_def Minute_def Second_def)

section \<open>The router and the greeting\<close>

lemma cleanPath_greet: "cleanPath ''/greet'' = ''/greet''"
  by (simp add: cleanPath_def path_Clean_def)

lemma cleanPath_greet_many: "cleanPath ''/greet-many'' = ''/greet-many''"
  by (simp add: cleanPath_def path_Clean_def)

lemma router_Match_router:
  "router_Match router q False =
     (if path q = ''/greet'' then (if http_method q = ''GET'' then Matched Greet else MethodMismatch)
      else if path q = ''/greet-many''
           then (if http_method q = ''GET'' then Matched GreetMany else MethodMismatch)
      else NoMatch)"
  by (simp add: router_def HandleFunc_def Methods_def)

text \<open>
  Claim C2. For every GET request to \<open>/greet\<close>, the router answers with status 200,
  content type text/plain and the body "Hello, <name>!", where <name> is the value
  of the query parameter \<open>name\<close>, or "World" when the parameter is absent or empty.
  The handler is the one modelled from the spec.
\<close>

theorem C2_greet_response:
  assumes "http_method q = ''GET''" and "path q = ''/greet''"
  shows "status (ServeHTTP router q) = 200 \<and>
         content_type (ServeHTTP router q) = Some ''text/plain'' \<and>
         body (ServeHTTP router q) =
           ''Hello, '' @
           (case map_of (query q) ''name'' of
              None \<Rightarrow> ''World''
            | Some n \<Rightarrow> if n = [] then ''World'' else n) @ ''!''"
  using assms
  by (simp add: ServeHTTP_def cleanPath_greet router_Match_router Greet_def text_plain_def
      greeting_def split: option.splits)

theorem C2_greet_response_witness:
  "http_method \<lparr>http_method = ''GET'', path = ''/greet'', query = [(''name'', ''Ada'')]\<rparr> = ''GET'' \<and>
   path \<lparr>http_method = ''GET'', path = ''/greet'', query = [(''name'', ''Ada'')]\<rparr> = ''/greet'' \<and>
   body (ServeHTTP router \<lparr>http_method = ''GET'', path = ''/greet'', query = [(''name'', ''Ada'')]\<rparr>)
     = ''Hello, Ada!'' \<and>
   body (ServeHTTP router \<lparr>http_method = ''GET'', path = ''/greet'', query = []\<rparr>) = ''Hello, World!''"
  using C2_greet_response [of "\<lparr>http_method = ''GET'', path = ''/greet'', query = [(''name'', ''Ada'')]\<rparr>"]
    C2_greet_response [of "\<lparr>http_method = ''GET'', path = ''/greet'', query = []\<rparr>"]
  by simp

text \<open>
  Claim C5 as stated fails: a request for a registered path with another method is
  not answered with 404. The router answers POST \<open>/greet\<close> with 405.
\<close>

theorem C5_counterexample:
  "status (ServeHTTP router \<lparr>http_method = ''POST'', path = ''/greet'', query = []\<rparr>) = 405"
  by (simp add: ServeHTTP_def cleanPath_greet router_Match_router MethodNotAllowed_def)

text \<open>
  Claim C5, amended. The router maps exactly two pairs of method and path, GET
  \<open>/greet\<close> to \<open>Greet\<close> and GET \<open>/greet-many\<close> to \<open>GreetMany\<close>. A request for one of
  these two paths with any other method is answered with 405; a request whose path
  is not in cleaned form is answered with a 301 redirect; every other request is
  answered with the standard not-found response, 404.
\<close>

theorem C5_router_dispatch:
  "ServeHTTP router q =
     (if cleanPath (path q) \<noteq> path q then MovedPermanently
      else if path q = ''/greet''
           then (if http_method q = ''GET'' then Greet q else MethodNotAllowed)
      else if path q = ''/greet-many''
           then (if http_method q = ''GET'' then GreetMany q else MethodNotAllowed)
      else NotFound) \<and>
   status NotFound = 404 \<and> status MethodNotAllowed = 405 \<and>
   status (MovedPermanently) = 301"
  by (simp add: ServeHTTP_def router_Match_router NotFound_def MethodNotAllowed_def
      MovedPermanently_def)

theorem C5_router_dispatch_witness:
  "ServeHTTP router \<lparr>http_method = ''GET'', path = ''/unknown'', query = []\<rparr> = NotFound \<and>
   ServeHTTP router \<lparr>http_method = ''GET'', path = ''/greet-many'', query = [(''name'', ''B''), (''name'', ''A'')]\<rparr>
     = text_plain (''Hello, B!'' @ [CHR 0x0A] @ ''Hello, A!'') \<and>
   ServeHTTP router \<lparr>http_method = ''DELETE'', path = ''/greet-many'', query = []\<rparr> = MethodNotAllowed \<and>
   ServeHTTP router \<lparr>http_method = ''GET'', path = ''//greet'', query = []\<rparr> = MovedPermanently"
  using C5_router_dispatch [of "\<lparr>http_method = ''GET'', path = ''/unknown'', query = []\<rparr>"]
    C5_router_dispatch [of "\<lparr>http_method = ''GET'', path = ''/greet-many'', query = [(''name'', ''B''), (''name'', ''A'')]\<rparr>"]
    C5_router_dispatch [of "\<lparr>http_method = ''DELETE'', path = ''/greet-many'', query = []\<rparr>"]
    C5_router_dispatch [of "\<lparr>http_method = ''GET'', path = ''//greet'', query = []\<rparr>"]
  by (simp add: cleanPath_def path_Clean_def GreetMany_def greeting_def)

end
